theory Spec2Isabelle
  imports Complex_Main "HOL-Library.Multiset"
begin


section \<open>JavaScript strings\<close>

text \<open>
  A JavaScript string is a sequence of UTF-16 code units. A code unit is modelled by its
  number, so that the unicode minus U+2212 of \<open>normalizeDictation\<close> and the
  accented letters of the command words are ordinary elements. \<open>js\<close> reads an ASCII
  literal.
\<close>

type_synonym jsstr = "nat list"

definition js :: "string \<Rightarrow> jsstr" where
  "js s = map of_char s"

definition is_digit :: "nat \<Rightarrow> bool" where
  "is_digit c = (48 \<le> c \<and> c \<le> 57)"

definition is_upper :: "nat \<Rightarrow> bool" where
  "is_upper c = (65 \<le> c \<and> c \<le> 90)"

definition is_lower :: "nat \<Rightarrow> bool" where
  "is_lower c = (97 \<le> c \<and> c \<le> 122)"

text \<open>The class \<open>\w\<close>: \<open>[A-Za-z0-9_]\<close>.\<close>

definition is_word :: "nat \<Rightarrow> bool" where
  "is_word c = (is_digit c \<or> is_upper c \<or> is_lower c \<or> c = 95)"

text \<open>Line terminators: LF, CR, U+2028, U+2029. The pattern \<open>.\<close> is every other unit.\<close>

definition is_lineterm :: "nat \<Rightarrow> bool" where
  "is_lineterm c = (c = 10 \<or> c = 13 \<or> c = 8232 \<or> c = 8233)"

definition is_dot :: "nat \<Rightarrow> bool" where
  "is_dot c = (\<not> is_lineterm c)"

text \<open>
  The class \<open>\s\<close>, which is also what \<open>trim\<close> strips: TAB, LF, VT, FF, CR, space,
  U+00A0, U+1680, U+2000 to U+200A, U+2028, U+2029, U+202F, U+205F, U+3000, U+FEFF.
\<close>

definition is_space :: "nat \<Rightarrow> bool" where
  "is_space c = ((9 \<le> c \<and> c \<le> 13) \<or> c = 32 \<or> c = 160 \<or> c = 5760
     \<or> (8192 \<le> c \<and> c \<le> 8202) \<or> c = 8232 \<or> c = 8233 \<or> c = 8239 \<or> c = 8287
     \<or> c = 12288 \<or> c = 65279)"

definition trimStart :: "jsstr \<Rightarrow> jsstr" where
  "trimStart s = dropWhile is_space s"

definition trimEnd :: "jsstr \<Rightarrow> jsstr" where
  "trimEnd s = rev (dropWhile is_space (rev s))"

definition trim :: "jsstr \<Rightarrow> jsstr" where
  "trim s = trimEnd (trimStart s)"

text \<open>
  \<open>toLowerCase\<close>, one code unit at a time. The table is exact for every unit whose
  image lies in U+0000 to U+00FF: the ASCII and Latin-1 capitals, and the four units
  above U+00FF that map into that range (U+0130 gives \<open>i\<close> followed by U+0307,
  U+0178 gives U+00FF, U+1E9E gives U+00DF, U+212A gives \<open>k\<close>, U+212B gives U+00E5).
  Every other unit is left as it is: the rest of the Unicode case table is not
  reproduced.
\<close>

definition lower_unit :: "nat \<Rightarrow> jsstr" where
  "lower_unit c =
     (if is_upper c then [c + 32]
      else if 192 \<le> c \<and> c \<le> 222 \<and> c \<noteq> 215 then [c + 32]
      else if c = 304 then [105, 775]
      else if c = 376 then [255]
      else if c = 7838 then [223]
      else if c = 8490 then [107]
      else if c = 8491 then [229]
      else [c])"

definition toLowerCase :: "jsstr \<Rightarrow> jsstr" where
  "toLowerCase s = concat (map lower_unit s)"

definition startsWith :: "jsstr \<Rightarrow> jsstr \<Rightarrow> bool" where
  "startsWith s p = (take (length p) s = p)"

section \<open>Regular expressions\<close>

text \<open>
  The regular expressions of the source are transcribed with backtracking matchers. A
  matcher receives the subject and a state (position and captures) and answers with the
  states after each way of matching, in the priority order of ECMAScript: a greedy
  quantifier lists the longest repetition first, a lazy one the shortest, an alternative
  its left branch first. The match the engine reports is the head of that list, for the
  leftmost start that has one. Quantifiers occur in the source on single character
  classes only, which is what \<open>rx_greedy\<close> and \<open>rx_lazy\<close> cover.
\<close>

record mstate =
  pos :: nat
  caps :: "(nat \<times> nat \<times> nat) list"

type_synonym rx = "jsstr \<Rightarrow> mstate \<Rightarrow> mstate list"

definition rx_eps :: rx where
  "rx_eps s st = [st]"

definition rx_fail :: rx where
  "rx_fail s st = []"

definition rx_cls :: "(nat \<Rightarrow> bool) \<Rightarrow> rx" where
  "rx_cls P s st =
     (if pos st < length s \<and> P (s ! pos st) then [st\<lparr>pos := Suc (pos st)\<rparr>] else [])"

definition rx_seq :: "rx \<Rightarrow> rx \<Rightarrow> rx" where
  "rx_seq a b s st = concat (map (b s) (a s st))"

definition rx_seqs :: "rx list \<Rightarrow> rx" where
  "rx_seqs rs = foldr rx_seq rs rx_eps"

definition rx_alt :: "rx \<Rightarrow> rx \<Rightarrow> rx" where
  "rx_alt a b s st = a s st @ b s st"

definition rx_alts :: "rx list \<Rightarrow> rx" where
  "rx_alts rs = foldr rx_alt rs rx_fail"

text \<open>\<open>(?:a)?\<close>: greedy, so the branch that takes \<open>a\<close> comes first.\<close>

definition rx_opt :: "rx \<Rightarrow> rx" where
  "rx_opt a = rx_alt a rx_eps"

definition run_length :: "(nat \<Rightarrow> bool) \<Rightarrow> jsstr \<Rightarrow> nat \<Rightarrow> nat" where
  "run_length P s i = length (takeWhile P (drop i s))"

text \<open>\<open>P{lo,}\<close> greedy (\<open>P*\<close> is \<open>lo = 0\<close>, \<open>P+\<close> is \<open>lo = 1\<close>).\<close>

definition rx_greedy :: "nat \<Rightarrow> (nat \<Rightarrow> bool) \<Rightarrow> rx" where
  "rx_greedy lo P s st =
     map (\<lambda>j. st\<lparr>pos := pos st + j\<rparr>) (rev [lo ..< Suc (run_length P s (pos st))])"

text \<open>\<open>P{lo,}?\<close> lazy.\<close>

definition rx_lazy :: "nat \<Rightarrow> (nat \<Rightarrow> bool) \<Rightarrow> rx" where
  "rx_lazy lo P s st =
     map (\<lambda>j. st\<lparr>pos := pos st + j\<rparr>) [lo ..< Suc (run_length P s (pos st))]"

text \<open>\<open>^\<close> and \<open>$\<close> without the multiline flag.\<close>

definition rx_bol :: rx where
  "rx_bol s st = (if pos st = 0 then [st] else [])"

definition rx_eol :: rx where
  "rx_eol s st = (if pos st = length s then [st] else [])"

definition word_at :: "jsstr \<Rightarrow> nat \<Rightarrow> bool" where
  "word_at s i = (i < length s \<and> is_word (s ! i))"

text \<open>\<open>\b\<close>: exactly one of the units before and after the position is a word unit.\<close>

definition boundary :: "jsstr \<Rightarrow> nat \<Rightarrow> bool" where
  "boundary s i = ((0 < i \<and> word_at s (i - 1)) \<noteq> word_at s i)"

definition rx_wordb :: rx where
  "rx_wordb s st = (if boundary s (pos st) then [st] else [])"

text \<open>Capture group \<open>n\<close>: records the span of what \<open>a\<close> matched.\<close>

definition rx_cap :: "nat \<Rightarrow> rx \<Rightarrow> rx" where
  "rx_cap n a s st = map (\<lambda>st'. st'\<lparr>caps := (n, pos st, pos st') # caps st'\<rparr>) (a s st)"

text \<open>\<open>(?=a)\<close>: \<open>a\<close> must match here; nothing is consumed and \<open>a\<close> is not re-entered.\<close>

definition rx_look :: "rx \<Rightarrow> rx" where
  "rx_look a s st = (case a s st of [] \<Rightarrow> [] | st' # _ \<Rightarrow> [st'\<lparr>pos := pos st\<rparr>])"

text \<open>
  A pattern character under the \<open>i\<close> flag (without the \<open>u\<close> flag) matches a unit with
  the same canonical form, the upper-case image. The patterns of the source contain only
  ASCII letters and U+00E9 under this flag; a unit above U+00FF never canonicalises to
  one of those, so the table below decides these patterns exactly.
\<close>

definition canon :: "nat \<Rightarrow> nat" where
  "canon c =
     (if is_lower c then c - 32
      else if 224 \<le> c \<and> c \<le> 254 \<and> c \<noteq> 247 then c - 32
      else if c = 255 then 376
      else if c = 181 then 924
      else c)"

definition rx_chr :: "nat \<Rightarrow> rx" where
  "rx_chr c = rx_cls (\<lambda>d. d = c)"

definition rx_chr_i :: "nat \<Rightarrow> rx" where
  "rx_chr_i c = rx_cls (\<lambda>d. canon d = canon c)"

definition rx_lit :: "jsstr \<Rightarrow> rx" where
  "rx_lit w = rx_seqs (map rx_chr w)"

definition rx_lit_i :: "jsstr \<Rightarrow> rx" where
  "rx_lit_i w = rx_seqs (map rx_chr_i w)"

text \<open>The match that starts at \<open>p\<close>, if there is one.\<close>

definition match_at :: "rx \<Rightarrow> jsstr \<Rightarrow> nat \<Rightarrow> mstate option" where
  "match_at r s p = (case r s \<lparr>pos = p, caps = []\<rparr> of [] \<Rightarrow> None | st # _ \<Rightarrow> Some st)"

text \<open>
  \<open>RegExp.prototype.exec\<close> from index \<open>i\<close>: the leftmost start, among the candidates
  given, at which the pattern matches; the answer is the start and the final state (end
  and captures).
\<close>

fun first_match :: "rx \<Rightarrow> jsstr \<Rightarrow> nat list \<Rightarrow> (nat \<times> mstate) option" where
  "first_match r s [] = None"
| "first_match r s (p # ps) =
     (case match_at r s p of Some st \<Rightarrow> Some (p, st) | None \<Rightarrow> first_match r s ps)"

definition rx_exec :: "rx \<Rightarrow> jsstr \<Rightarrow> nat \<Rightarrow> (nat \<times> mstate) option" where
  "rx_exec r s i = first_match r s [i ..< Suc (length s)]"

definition rx_test :: "rx \<Rightarrow> jsstr \<Rightarrow> bool" where
  "rx_test r s = (rx_exec r s 0 \<noteq> None)"

text \<open>The text of capture group \<open>n\<close> (the empty string when the group did not take part).\<close>

definition group :: "jsstr \<Rightarrow> mstate \<Rightarrow> nat \<Rightarrow> jsstr" where
  "group s st n =
     (case map_of (caps st) n of None \<Rightarrow> [] | Some (a, b) \<Rightarrow> take (b - a) (drop a s))"

section \<open>Numbers\<close>

text \<open>
  A JavaScript number is an IEEE-754 binary64 value. The finite ones are represented by
  the rational they denote, and every operation rounds its exact result to the nearest
  binary64 value, ties to even, overflowing to an infinity (\<open>round64\<close>). The two zeros
  are identified. Dividing by the other zero gives the other infinity, which is no more
  finite, and a zero of either sign is not greater than zero, so this identification
  changes neither whether a result is finite nor whether it is positive.
\<close>

datatype jsnum = Fin rat | PInf | NInf | NaN

definition pow2 :: "int \<Rightarrow> rat" where
  "pow2 e = (if 0 \<le> e then 2 ^ nat e else 1 / 2 ^ nat (- e))"

fun log2floor :: "nat \<Rightarrow> nat" where
  "log2floor n = (if n < 2 then 0 else Suc (log2floor (n div 2)))"

declare log2floor.simps [simp del]

text \<open>\<open>\<lfloor>log\<^sub>2 a\<rfloor>\<close> for a positive rational \<open>a\<close>.\<close>

definition ilog2 :: "rat \<Rightarrow> int" where
  "ilog2 a =
     (if 1 \<le> a then int (log2floor (nat \<lfloor>a\<rfloor>))
      else (let b = nat \<lceil>1 / a\<rceil> in if b \<le> 1 then 0 else - int (Suc (log2floor (b - 1)))))"

definition round_half_even :: "rat \<Rightarrow> int" where
  "round_half_even x =
     (let f = \<lfloor>x\<rfloor>; d = x - of_int f
      in if d < 1 / 2 then f else if 1 / 2 < d then f + 1 else if even f then f else f + 1)"

text \<open>
  The binade of \<open>\<bar>q\<bar>\<close> is \<open>e\<close> (not below the subnormal one, \<open>-1022\<close>); the spacing
  of binary64 values there is \<open>2\<^sup>e\<^sup>-\<^sup>5\<^sup>2\<close>; a rounded magnitude of \<open>2\<^sup>1\<^sup>0\<^sup>2\<^sup>4\<close> or more
  is an overflow.
\<close>

definition round64 :: "rat \<Rightarrow> jsnum" where
  "round64 q =
     (if q = 0 then Fin 0
      else (let a = \<bar>q\<bar>;
                e = max (ilog2 a) (- 1022);
                u = pow2 (e - 52);
                r = of_int (round_half_even (a / u)) * u
            in if pow2 1024 \<le> r then (if 0 < q then PInf else NInf)
               else Fin (if 0 < q then r else - r)))"

fun jneg :: "jsnum \<Rightarrow> jsnum" where
  "jneg (Fin a) = Fin (- a)"
| "jneg PInf = NInf"
| "jneg NInf = PInf"
| "jneg NaN = NaN"

fun jadd :: "jsnum \<Rightarrow> jsnum \<Rightarrow> jsnum" where
  "jadd (Fin a) (Fin b) = round64 (a + b)"
| "jadd NaN _ = NaN"
| "jadd _ NaN = NaN"
| "jadd PInf NInf = NaN"
| "jadd NInf PInf = NaN"
| "jadd PInf _ = PInf"
| "jadd NInf _ = NInf"
| "jadd (Fin a) PInf = PInf"
| "jadd (Fin a) NInf = NInf"

definition jsub :: "jsnum \<Rightarrow> jsnum \<Rightarrow> jsnum" where
  "jsub x y = jadd x (jneg y)"

text \<open>The sign of a number: \<open>1\<close>, \<open>0\<close> or \<open>-1\<close>; \<open>None\<close> for NaN.\<close>

fun jsign :: "jsnum \<Rightarrow> int option" where
  "jsign (Fin a) = Some (if 0 < a then 1 else if a < 0 then - 1 else 0)"
| "jsign PInf = Some 1"
| "jsign NInf = Some (- 1)"
| "jsign NaN = None"

definition inf_of_sign :: "int \<Rightarrow> jsnum" where
  "inf_of_sign g = (if 0 < g then PInf else if g < 0 then NInf else NaN)"

fun jmul :: "jsnum \<Rightarrow> jsnum \<Rightarrow> jsnum" where
  "jmul (Fin a) (Fin b) = round64 (a * b)"
| "jmul x y =
     (case (jsign x, jsign y) of
        (Some g, Some h) \<Rightarrow> inf_of_sign (g * h)
      | _ \<Rightarrow> NaN)"

fun jdiv :: "jsnum \<Rightarrow> jsnum \<Rightarrow> jsnum" where
  "jdiv (Fin a) (Fin b) =
     (if b = 0 then inf_of_sign (if 0 < a then 1 else if a < 0 then - 1 else 0)
      else round64 (a / b))"
| "jdiv (Fin a) PInf = Fin 0"
| "jdiv (Fin a) NInf = Fin 0"
| "jdiv PInf (Fin b) = (if b < 0 then NInf else PInf)"
| "jdiv NInf (Fin b) = (if b < 0 then PInf else NInf)"
| "jdiv _ _ = NaN"

text \<open>\<open>Number.isFinite\<close>, and the comparisons with zero (false on NaN).\<close>

fun isFinite :: "jsnum \<Rightarrow> bool" where
  "isFinite (Fin a) = True"
| "isFinite _ = False"

fun gt0 :: "jsnum \<Rightarrow> bool" where
  "gt0 (Fin a) = (0 < a)"
| "gt0 PInf = True"
| "gt0 _ = False"

fun le0 :: "jsnum \<Rightarrow> bool" where
  "le0 (Fin a) = (a \<le> 0)"
| "le0 NInf = True"
| "le0 _ = False"

text \<open>
  The value of a run of decimal digits, as \<open>Number\<close> and \<open>parseInt(_, 10)\<close> read it:
  the decimal integer, rounded.
\<close>

definition digit_val :: "nat \<Rightarrow> nat" where
  "digit_val c = c - 48"

definition decimal :: "jsstr \<Rightarrow> nat" where
  "decimal ds = foldl (\<lambda>n c. 10 * n + digit_val c) 0 ds"

definition number_of_digits :: "jsstr \<Rightarrow> jsnum" where
  "number_of_digits ds = round64 (of_nat (decimal ds))"


section \<open>The segment extractor (backend, index.ts)\<close>

record parsed =
  quantity :: jsnum
  itemLabel :: jsstr

text \<open>
  The table \<open>FR_NUM\<close>. The keys looked up are lower-cased runs of letters and hyphens.
  (The one inherited property of a JavaScript object with such a name, \<open>constructor\<close>,
  is not a number and fails the test \<open>qty > 0\<close> of its only user, as a missing key
  does.)
\<close>

definition FR_NUM :: "(jsstr \<times> nat) list" where
  "FR_NUM =
     [(js ''zero'', 0), (js ''z'' @ [233] @ js ''ro'', 0),
      (js ''un'', 1), (js ''une'', 1),
      (js ''deux'', 2),
      (js ''trois'', 3),
      (js ''quatre'', 4),
      (js ''cinq'', 5),
      (js ''six'', 6),
      (js ''sept'', 7),
      (js ''huit'', 8),
      (js ''neuf'', 9),
      (js ''dix'', 10),
      (js ''onze'', 11),
      (js ''douze'', 12),
      (js ''treize'', 13),
      (js ''quatorze'', 14),
      (js ''quinze'', 15),
      (js ''seize'', 16),
      (js ''vingt'', 20)]"

text \<open>The class \<^verbatim>\<open>[A-Za-z\u00C0-\u00FF-]\<close>: ASCII letters, U+00C0 to U+00FF, and the hyphen.\<close>

definition is_letterish :: "nat \<Rightarrow> bool" where
  "is_letterish c = (is_upper c \<or> is_lower c \<or> (192 \<le> c \<and> c \<le> 255) \<or> c = 45)"

text \<open>\<^verbatim>\<open>/^([A-Za-z\u00C0-\u00FF-]+)\b/\<close>\<close>

definition re_lead_word :: rx where
  "re_lead_word = rx_seqs [rx_bol, rx_cap 1 (rx_greedy 1 is_letterish), rx_wordb]"

definition parseLeadingNumberWord :: "jsstr \<Rightarrow> nat option \<times> jsstr" where
  "parseLeadingNumberWord seg =
     (let s = trim seg
      in case rx_exec re_lead_word s 0 of
           None \<Rightarrow> (None, s)
         | Some (p, m) \<Rightarrow>
             (let w = toLowerCase (group s m 1)
              in case map_of FR_NUM w of
                   None \<Rightarrow> (None, s)
                 | Some qty \<Rightarrow> (Some qty, trim (drop (pos m - p) s))))"

text \<open>\<open>parseInt(d, 10)\<close> on a run of digits.\<close>

definition parseInt :: "jsstr \<Rightarrow> jsnum" where
  "parseInt ds = number_of_digits ds"

text \<open>\<^verbatim>\<open>/^(\d+)\s+(.+)$/\<close>\<close>

definition re_leading_qty :: rx where
  "re_leading_qty =
     rx_seqs [rx_bol, rx_cap 1 (rx_greedy 1 is_digit), rx_greedy 1 is_space,
              rx_cap 2 (rx_greedy 1 is_dot), rx_eol]"

text \<open>\<^verbatim>\<open>/^(.*?)(?:\s+)?x\s*(\d+)\s*$/i\<close>\<close>

definition re_trailing_mult :: rx where
  "re_trailing_mult =
     rx_seqs [rx_bol, rx_cap 1 (rx_lazy 0 is_dot), rx_opt (rx_greedy 1 is_space),
              rx_chr_i 120, rx_greedy 0 is_space, rx_cap 2 (rx_greedy 1 is_digit),
              rx_greedy 0 is_space, rx_eol]"

text \<open>\<^verbatim>\<open>/^(.+?)\s+(\d+)\s*$/\<close>\<close>

definition re_trailing_qty :: rx where
  "re_trailing_qty =
     rx_seqs [rx_bol, rx_cap 1 (rx_lazy 1 is_dot), rx_greedy 1 is_space,
              rx_cap 2 (rx_greedy 1 is_digit), rx_greedy 0 is_space, rx_eol]"

text \<open>The common end of strategies 1, 3 and 4: \<open>if (quantity > 0 && itemLabel) return ...\<close>.\<close>

definition accept :: "jsnum \<Rightarrow> jsstr \<Rightarrow> parsed option" where
  "accept q l = (if gt0 q \<and> l \<noteq> [] then Some \<lparr>quantity = q, itemLabel = l\<rparr> else None)"

text \<open>1) a leading quantity: "10 vis M6x20".\<close>

definition strategy1 :: "jsstr \<Rightarrow> parsed option" where
  "strategy1 s =
     (case rx_exec re_leading_qty s 0 of
        None \<Rightarrow> None
      | Some (p, m) \<Rightarrow> accept (parseInt (group s m 1)) (trim (group s m 2)))"

text \<open>2) a leading quantity in words: "dix vis M6x20".\<close>

definition strategy2 :: "jsstr \<Rightarrow> parsed option" where
  "strategy2 s =
     (case parseLeadingNumberWord s of
        (Some qty, rest) \<Rightarrow>
          if 0 < qty \<and> rest \<noteq> []
          then Some \<lparr>quantity = Fin (of_nat qty), itemLabel = trim rest\<rparr> else None
      | (None, rest) \<Rightarrow> None)"

text \<open>3) the pattern "vis M6x20 x 10" or "vis M6x20 x10".\<close>

definition strategy3 :: "jsstr \<Rightarrow> parsed option" where
  "strategy3 s =
     (case rx_exec re_trailing_mult s 0 of
        None \<Rightarrow> None
      | Some (p, m) \<Rightarrow> accept (parseInt (group s m 2)) (trim (group s m 1)))"

text \<open>4) a trailing quantity: "vis M6x20 10".\<close>

definition strategy4 :: "jsstr \<Rightarrow> parsed option" where
  "strategy4 s =
     (case rx_exec re_trailing_qty s 0 of
        None \<Rightarrow> None
      | Some (p, m) \<Rightarrow> accept (parseInt (group s m 2)) (trim (group s m 1)))"

text \<open>
  \<open>s.split(/P+/)\<close> for a character class \<open>P\<close>: the pieces between the maximal runs of
  \<open>P\<close>, an empty piece included where the string starts or ends with a run.
\<close>

function split_runs :: "(nat \<Rightarrow> bool) \<Rightarrow> jsstr \<Rightarrow> jsstr list" where
  "split_runs P s =
     (let a = takeWhile (\<lambda>c. \<not> P c) s; r = dropWhile (\<lambda>c. \<not> P c) s
      in if r = [] then [a] else a # split_runs P (dropWhile P (tl r)))"
  by pat_completeness auto
termination
proof (relation "measure (\<lambda>(P, s). length s)")
  show "wf (measure (\<lambda>(P, s). length s))" by simp
next
  fix P :: "nat \<Rightarrow> bool" and s a r :: jsstr
  assume r: "r = dropWhile (\<lambda>c. \<not> P c) s" and ne: "r \<noteq> []"
  have "length (dropWhile P (tl r)) \<le> length (tl r)" by (rule length_dropWhile_le)
  also have "\<dots> < length r" using ne by (cases r) auto
  also have "\<dots> \<le> length s" unfolding r by (rule length_dropWhile_le)
  finally show "((P, dropWhile P (tl r)), (P, s)) \<in> measure (\<lambda>(P, s). length s)" by simp
qed

declare split_runs.simps [simp del]

text \<open>\<open>tokens.join(" ")\<close>\<close>

fun join_sp :: "jsstr list \<Rightarrow> jsstr" where
  "join_sp [] = []"
| "join_sp [t] = t"
| "join_sp (t # ts) = t @ [32] @ join_sp ts"

text \<open>\<^verbatim>\<open>/^\d+$/.test(tok)\<close>\<close>

definition all_digits :: "jsstr \<Rightarrow> bool" where
  "all_digits tok = (tok \<noteq> [] \<and> list_all is_digit tok)"

definition is_mm :: "jsstr \<Rightarrow> bool" where
  "is_mm w = (w = js ''mm'' \<or> w = js ''millimetre'' \<or> w = js ''millim'' @ [232] @ js ''tre''
     \<or> w = js ''millimetres'' \<or> w = js ''millim'' @ [232] @ js ''tres'')"

text \<open>
  5) the fallback loop over the tokens, from index \<open>i\<close>. A token that is taken is
  spliced out of the array, and the loop goes on over the shortened array when the
  label is empty, as in the source.
\<close>

function fallback :: "jsstr list \<Rightarrow> nat \<Rightarrow> parsed option" where
  "fallback tokens i =
     (if i < length tokens then
        (let tok = tokens ! i in
         if all_digits tok then
           (let next = toLowerCase (if Suc i < length tokens then tokens ! Suc i else [])
            in if is_mm next then fallback tokens (Suc i)
               else (let quantity = parseInt tok
                     in if le0 quantity then fallback tokens (Suc i)
                        else (let tokens' = take i tokens @ drop (Suc i) tokens;
                                  itemLabel = trim (join_sp tokens')
                              in if itemLabel \<noteq> [] then Some \<lparr>quantity = quantity, itemLabel = itemLabel\<rparr>
                                 else fallback tokens' (Suc i))))
         else fallback tokens (Suc i))
      else None)"
  by pat_completeness auto
termination
  by (relation "measure (\<lambda>(tokens, i). length tokens - i)") auto

declare fallback.simps [simp del]

definition strategy5 :: "jsstr \<Rightarrow> parsed option" where
  "strategy5 s = fallback (split_runs is_space s) 0"

text \<open>The first strategy that answers decides.\<close>

fun first_some :: "('a \<Rightarrow> 'b option) \<Rightarrow> 'a list \<Rightarrow> 'b option" where
  "first_some f [] = None"
| "first_some f (x # xs) = (case f x of Some r \<Rightarrow> Some r | None \<Rightarrow> first_some f xs)"

definition extractQuantityAndLabel :: "jsstr \<Rightarrow> parsed option" where
  "extractQuantityAndLabel segment =
     (let s = trim segment
      in if s = [] then None
         else first_some (\<lambda>f. f s) [strategy1, strategy2, strategy3, strategy4, strategy5])"

section \<open>The batch normalizer (backend, index.ts)\<close>

text \<open>
  \<open>s.replace(re, f)\<close> for a regular expression with the \<open>g\<close> flag, from index
  \<open>i\<close> on: the text up to the next match is kept, the match is replaced by what
  \<open>f\<close> makes of it, and the search goes on behind the match (one unit further after
  an empty match, the unit being kept).
\<close>

function replace_from :: "rx \<Rightarrow> (jsstr \<Rightarrow> mstate \<Rightarrow> jsstr) \<Rightarrow> jsstr \<Rightarrow> nat \<Rightarrow> jsstr" where
  "replace_from r f s i =
     (if length s < i then []
      else case rx_exec r s i of
             None \<Rightarrow> drop i s
           | Some (p, m) \<Rightarrow>
               take (p - i) (drop i s) @ f s m @
                 (if pos m \<le> p then take 1 (drop p s) @ replace_from r f s (Suc p)
                  else replace_from r f s (pos m)))"
  by pat_completeness auto
termination
proof -
  have mem: "first_match r s ps = Some (p, m) \<Longrightarrow> p \<in> set ps"
    for r s ps p m
    by (induction ps) (auto split: option.splits)
  have ge: "rx_exec r s i = Some (p, m) \<Longrightarrow> i \<le> p" for r s i p m
    using mem [of r s "[i ..< Suc (length s)]" p m] unfolding rx_exec_def by auto
  show ?thesis
    by (relation "measure (\<lambda>(r, f, s, i). Suc (length s) - i)") (auto dest!: ge)
qed

declare replace_from.simps [simp del]

definition replace_all :: "rx \<Rightarrow> (jsstr \<Rightarrow> mstate \<Rightarrow> jsstr) \<Rightarrow> jsstr \<Rightarrow> jsstr" where
  "replace_all r f s = replace_from r f s 0"

text \<open>A replacement that is a fixed string.\<close>

definition const_rep :: "jsstr \<Rightarrow> jsstr \<Rightarrow> mstate \<Rightarrow> jsstr" where
  "const_rep w s m = w"

text \<open>\<^verbatim>\<open>/\bpoint[\s-]?virgule\b/gi\<close>\<close>

definition re_point_virgule :: rx where
  "re_point_virgule =
     rx_seqs [rx_wordb, rx_lit_i (js ''point''), rx_opt (rx_cls (\<lambda>c. is_space c \<or> c = 45)),
              rx_lit_i (js ''virgule''), rx_wordb]"

text \<open>\<^verbatim>\<open>/\bvirgule\b/gi\<close>\<close>

definition re_virgule :: rx where
  "re_virgule = rx_seqs [rx_wordb, rx_lit_i (js ''virgule''), rx_wordb]"

text \<open>
  \<^verbatim>\<open>/\bet\s+(?=(\d+|un|une|deux|trois|quatre|cinq|six|sept|huit|neuf|dix|onze|douze|treize|quatorze|quinze|seize|vingt)\b)/gi\<close>
\<close>

definition number_words :: "jsstr list" where
  "number_words =
     [js ''un'', js ''une'', js ''deux'', js ''trois'', js ''quatre'', js ''cinq'', js ''six'',
      js ''sept'', js ''huit'', js ''neuf'', js ''dix'', js ''onze'', js ''douze'', js ''treize'',
      js ''quatorze'', js ''quinze'', js ''seize'', js ''vingt'']"

definition re_et :: rx where
  "re_et =
     rx_seqs [rx_wordb, rx_lit_i (js ''et''), rx_greedy 1 is_space,
              rx_look (rx_seqs [rx_cap 1 (rx_alts (rx_greedy 1 is_digit # map rx_lit_i number_words)),
                                rx_wordb])]"

text \<open>\<^verbatim>\<open>/\s*[+\u2212-]\s*/g\<close>: plus, the unicode minus U+2212, hyphen-minus.\<close>

definition is_op :: "nat \<Rightarrow> bool" where
  "is_op c = (c = 43 \<or> c = 8722 \<or> c = 45)"

definition re_ops :: rx where
  "re_ops = rx_seqs [rx_greedy 0 is_space, rx_cls is_op, rx_greedy 0 is_space]"

text \<open>\<^verbatim>\<open>/\bfois\b/gi\<close>\<close>

definition re_fois :: rx where
  "re_fois = rx_seqs [rx_wordb, rx_lit_i (js ''fois''), rx_wordb]"

text \<open>\<^verbatim>\<open>/\bm\s*(\d+)\s*[x\u00D7]\s*(\d+)\b/gi\<close>; the class is \<open>x\<close> or U+00D7, under the \<open>i\<close> flag.\<close>

definition re_m_dims :: rx where
  "re_m_dims =
     rx_seqs [rx_wordb, rx_chr_i 109, rx_greedy 0 is_space, rx_cap 1 (rx_greedy 1 is_digit),
              rx_greedy 0 is_space, rx_cls (\<lambda>d. canon d = canon 120 \<or> canon d = canon 215),
              rx_greedy 0 is_space, rx_cap 2 (rx_greedy 1 is_digit), rx_wordb]"

text \<open>\<^verbatim>\<open>/\bm\s*(\d+)\b/gi\<close>\<close>

definition re_m :: rx where
  "re_m =
     rx_seqs [rx_wordb, rx_chr_i 109, rx_greedy 0 is_space, rx_cap 1 (rx_greedy 1 is_digit),
              rx_wordb]"

text \<open>\<^verbatim>\<open>/\s+/g\<close>\<close>

definition re_spaces :: rx where
  "re_spaces = rx_greedy 1 is_space"

text \<open>The replacement functions \<^verbatim>\<open>(_m, a, b) => `M${a}x${b}`\<close> and \<^verbatim>\<open>(_m, a) => `M${a}`\<close>.\<close>

definition rep_m_dims :: "jsstr \<Rightarrow> mstate \<Rightarrow> jsstr" where
  "rep_m_dims s m = [77] @ group s m 1 @ [120] @ group s m 2"

definition rep_m :: "jsstr \<Rightarrow> mstate \<Rightarrow> jsstr" where
  "rep_m s m = [77] @ group s m 1"

definition normalizeDictation :: "jsstr \<Rightarrow> jsstr" where
  "normalizeDictation raw =
     (let t = trim raw;
          t = replace_all re_point_virgule (const_rep (js '';'')) t;
          t = replace_all re_virgule (const_rep (js '','')) t;
          t = replace_all re_et (const_rep (js '', '')) t;
          t = replace_all re_ops (const_rep (js '', '')) t;
          t = replace_all re_fois (const_rep (js ''x'')) t;
          t = replace_all re_m_dims rep_m_dims t;
          t = replace_all re_m rep_m t;
          t = trim (replace_all re_spaces (const_rep (js '' '')) t)
      in t)"

text \<open>
  \<open>parseDictation\<close>: the normalized text is split at runs of \<open>,\<close> and \<open>;\<close>, the
  pieces are trimmed, the empty ones dropped, and each piece that the extractor accepts
  gives a line, its label with runs of white space collapsed.
\<close>

definition parseDictation :: "jsstr \<Rightarrow> parsed list" where
  "parseDictation text =
     (let norm = normalizeDictation text;
          segments = filter (\<lambda>s. s \<noteq> []) (map trim (split_runs (\<lambda>c. c = 59 \<or> c = 44) norm))
      in concat (map (\<lambda>seg. case extractQuantityAndLabel seg of
                               None \<Rightarrow> []
                             | Some p \<Rightarrow> [p\<lparr>itemLabel := trim (replace_all re_spaces (const_rep (js '' '')) (itemLabel p))\<rparr>])
                     segments))"


section \<open>The expression evaluator (frontend, App.tsx)\<close>

text \<open>
  The errors of the evaluator. \<open>EngineError\<close> stands for an exception that the
  parser itself does not throw (the stack overflow of the JavaScript engine); the
  \<open>catch\<close> clause of \<open>evalExprSafe\<close> turns it into an error value like the others.
\<close>

datatype eval_error =
    ExpressionVide
  | NombreAttendu
  | ParentheseManquante
  | CaractereInattendu nat
  | ResultatInvalide
  | EngineError

text \<open>The message of each error (U+00E8 and U+00E9 are the accented letters).\<close>

fun message :: "eval_error \<Rightarrow> jsstr" where
  "message ExpressionVide = js ''Expression vide''"
| "message NombreAttendu = js ''Nombre attendu''"
| "message ParentheseManquante = js ''Parenth'' @ [232] @ js ''se manquante''"
| "message (CaractereInattendu c) = js ''Caract'' @ [232] @ js ''re inattendu: '' @ [34, c, 34]"
| "message ResultatInvalide = js ''R'' @ [233] @ js ''sultat invalide''"
| "message EngineError = js ''Maximum call stack size exceeded''"

record eval_result =
  "value" :: jsnum
  error :: "eval_error option"

text \<open>\<open>peek\<close> is \<open>s[i]\<close>, undefined past the end; \<open>skip\<close> passes the spaces (U+0020 only).\<close>

definition peek :: "jsstr \<Rightarrow> nat \<Rightarrow> nat option" where
  "peek s i = (if i < length s then Some (s ! i) else None)"

definition skip :: "jsstr \<Rightarrow> nat \<Rightarrow> nat" where
  "skip s i = i + run_length (\<lambda>c. c = 32) s i"

text \<open>
  A parsing function answers with the error it throws (\<open>Inl\<close>) or with its value and
  the index \<open>i\<close> it leaves behind (\<open>Inr\<close>).
\<close>

type_synonym parse = "eval_error + jsnum \<times> nat"

definition number :: "jsstr \<Rightarrow> nat \<Rightarrow> parse" where
  "number s i0 =
     (let start = skip s i0;
          i = start + run_length is_digit s start
      in if start = i then Inl NombreAttendu
         else Inr (number_of_digits (take (i - start) (drop start s)), i))"

text \<open>
  The recursive descent. The functions \<open>factor\<close>, \<open>term\<close> and \<open>expr_\<close> of the
  source call each other; they are the cases of one function here, named by \<open>rule\<close>,
  together with the \<open>while (true)\<close> loops of \<open>term\<close> and \<open>expr_\<close>
  (\<open>TermLoop v\<close> and \<open>ExprLoop v\<close>, with \<open>v\<close> the value so far). The first argument
  bounds the depth of the calls: at depth zero the answer is \<open>None\<close>, the engine's
  stack overflow.
\<close>

datatype rule = Factor | TermLoop jsnum | Term | ExprLoop jsnum | Expr

text \<open>What follows a call: its error or loss is passed on, its value and index are used.\<close>

definition and_then :: "parse option \<Rightarrow> (jsnum \<Rightarrow> nat \<Rightarrow> parse option) \<Rightarrow> parse option" where
  "and_then r k =
     (case r of None \<Rightarrow> None | Some (Inl e) \<Rightarrow> Some (Inl e) | Some (Inr (v, j)) \<Rightarrow> k v j)"

primrec descend :: "nat \<Rightarrow> jsstr \<Rightarrow> rule \<Rightarrow> nat \<Rightarrow> parse option" where
  "descend 0 s r i0 = None"
| "descend (Suc n) s r i0 =
     (case r of
        Factor \<Rightarrow>
          (let i = skip s i0 in
           if peek s i = Some 43 then descend n s Factor (Suc i)
           else if peek s i = Some 45 then
             and_then (descend n s Factor (Suc i)) (\<lambda>v j. Some (Inr (jneg v, j)))
           else if peek s i = Some 40 then
             and_then (descend n s Expr (Suc i))
               (\<lambda>v j0. let j = skip s j0 in
                        if peek s j \<noteq> Some 41 then Some (Inl ParentheseManquante)
                        else Some (Inr (v, Suc j)))
           else Some (number s i))
      | Term \<Rightarrow>
          and_then (descend n s Factor i0) (\<lambda>v j. descend n s (TermLoop v) j)
      | TermLoop v \<Rightarrow>
          (let i = skip s i0; c = peek s i in
           if c = Some 42 \<or> c = Some 47 then
             and_then (descend n s Factor (Suc i))
               (\<lambda>rhs j. descend n s (TermLoop (if c = Some 42 then jmul v rhs else jdiv v rhs)) j)
           else Some (Inr (v, i)))
      | Expr \<Rightarrow>
          and_then (descend n s Term i0) (\<lambda>v j. descend n s (ExprLoop v) j)
      | ExprLoop v \<Rightarrow>
          (let i = skip s i0; c = peek s i in
           if c = Some 43 \<or> c = Some 45 then
             and_then (descend n s Term (Suc i))
               (\<lambda>rhs j. descend n s (ExprLoop (if c = Some 43 then jadd v rhs else jsub v rhs)) j)
           else Some (Inr (v, i))))"

text \<open>
  The depth that the rule \<open>r\<close> needs at index \<open>i\<close> at most: each unit of the input
  that is left accounts for three nested calls (\<open>expr_\<close>, \<open>term\<close>, \<open>factor\<close>).
\<close>

fun depth_needed :: "jsstr \<Rightarrow> rule \<Rightarrow> nat \<Rightarrow> nat" where
  "depth_needed s Factor i = 3 * (length s - i) + 1"
| "depth_needed s (TermLoop v) i = 3 * (length s - i) + 1"
| "depth_needed s Term i = 3 * (length s - i) + 2"
| "depth_needed s (ExprLoop v) i = 3 * (length s - i) + 2"
| "depth_needed s Expr i = 3 * (length s - i) + 3"

text \<open>
  A depth that no expression of this length reaches (lemma \<open>depth_suffices\<close> below), so
  that the answers are those of an engine with an unbounded stack.
\<close>

definition depth_bound :: "jsstr \<Rightarrow> nat" where
  "depth_bound s = 3 * length s + 3"

text \<open>
  Where a rule leaves the index when it succeeds: \<open>factor\<close>, \<open>term\<close> and \<open>expr_\<close>
  consume at least one unit, the loops none or more, and none reads past the end.
\<close>

fun consumes :: "rule \<Rightarrow> bool" where
  "consumes (TermLoop v) = False"
| "consumes (ExprLoop v) = False"
| "consumes r = True"

definition advances :: "jsstr \<Rightarrow> rule \<Rightarrow> nat \<Rightarrow> parse \<Rightarrow> bool" where
  "advances s r i res =
     (case res of
        Inl e \<Rightarrow> True
      | Inr (v, j) \<Rightarrow>
          (if consumes r then i < j \<and> j \<le> length s
           else i \<le> j \<and> (i \<le> length s \<longrightarrow> j \<le> length s)))"

definition evalExprSafe :: "jsstr \<Rightarrow> eval_result" where
  "evalExprSafe expr =
     (let s = trim expr in
      if s = [] then \<lparr>value = Fin 0, error = Some ExpressionVide\<rparr>
      else case descend (depth_bound s) s Expr 0 of
             None \<Rightarrow> \<lparr>value = Fin 0, error = Some EngineError\<rparr>
           | Some (Inl e) \<Rightarrow> \<lparr>value = Fin 0, error = Some e\<rparr>
           | Some (Inr (v, i0)) \<Rightarrow>
               (let i = skip s i0 in
                if i < length s then \<lparr>value = Fin 0, error = Some (CaractereInattendu (s ! i))\<rparr>
                else if \<not> isFinite v then \<lparr>value = Fin 0, error = Some ResultatInvalide\<rparr>
                else \<lparr>value = v, error = None\<rparr>))"

section \<open>The spoken arithmetic pre-filter (frontend, App.tsx)\<close>

text \<open>A word between word boundaries, without the \<open>i\<close> flag: \<^verbatim>\<open>/\bplus\b/g\<close> and the like.\<close>

definition re_word :: "jsstr \<Rightarrow> rx" where
  "re_word w = rx_seqs [rx_wordb, rx_lit w, rx_wordb]"

text \<open>\<^verbatim>\<open>/(\d)\s*x\s*(\d)/g\<close>, replaced by \<^verbatim>\<open>"$1*$2"\<close>.\<close>

definition re_digit_x_digit :: rx where
  "re_digit_x_digit =
     rx_seqs [rx_cap 1 (rx_cls is_digit), rx_greedy 0 is_space, rx_chr 120, rx_greedy 0 is_space,
              rx_cap 2 (rx_cls is_digit)]"

definition rep_digit_x_digit :: "jsstr \<Rightarrow> mstate \<Rightarrow> jsstr" where
  "rep_digit_x_digit s m = group s m 1 @ [42] @ group s m 2"

text \<open>\<^verbatim>\<open>/[^0-9+\-*/().]/g\<close>\<close>

definition is_expr_unit :: "nat \<Rightarrow> bool" where
  "is_expr_unit c = (is_digit c \<or> c = 43 \<or> c = 45 \<or> c = 42 \<or> c = 47 \<or> c = 40 \<or> c = 41 \<or> c = 46)"

definition normalizeMathSpeech :: "jsstr \<Rightarrow> jsstr" where
  "normalizeMathSpeech text =
     (let t = toLowerCase text;
          t = replace_all (re_word (js ''plus'')) (const_rep (js ''+'')) t;
          t = replace_all (re_word (js ''moins'')) (const_rep (js ''-'')) t;
          t = replace_all (re_word (js ''fois'')) (const_rep (js ''*'')) t;
          t = replace_all (re_word (js ''multiplie'')) (const_rep (js ''*'')) t;
          t = replace_all (re_word (js ''divise'')) (const_rep (js ''/'')) t;
          t = replace_all (re_word (js ''divis'' @ [233])) (const_rep (js ''/'')) t;
          t = replace_all (re_word (js ''par'')) (const_rep []) t;
          t = replace_all re_digit_x_digit rep_digit_x_digit t;
          t = replace_all (rx_cls (\<lambda>c. \<not> is_expr_unit c)) (const_rep []) t;
          t = replace_all re_spaces (const_rep []) t
      in t)"


section \<open>The streaming session (frontend, App.tsx)\<close>

text \<open>
  The state of the component \<open>App\<close>: its \<open>useState\<close> variables. A container is what
  the collaborator answers: identifier, label and lines (identifier, item label,
  quantity).
\<close>

record container =
  cid :: jsstr
  clabel :: jsstr
  clines :: "(jsstr \<times> jsstr \<times> jsnum) list"

text \<open>
  The status messages are template strings; a message is kept as its template and the
  values that fill it.
\<close>

datatype status_msg =
    NoStatus
  | ContainerCreated jsstr
  | ContainerCreationError jsstr
  | EmptyReference
  | ActiveReference jsstr
  | NoActiveReference jsstr
  | EvalError eval_error jsstr
  | NothingAdded jsnum
  | Added jsnum jsstr
  | SegmentError jsstr

record app_state =
  containerLabel :: jsstr
  container :: "container option"
  activeItem :: jsstr
  exprDraft :: jsstr
  refInput :: jsstr
  qtyInput :: jsnum
  summary :: "(jsstr \<times> jsnum) list"
  loading :: bool
  status :: status_msg

text \<open>
  The requests that reach the collaborator through \<open>api\<close>, and the collaborator: for
  each request, given the requests sent before, the answer or the text of the error that
  \<open>api\<close> throws.
\<close>

datatype request =
    PostContainers jsstr
  | PostLines jsstr jsstr jsnum
  | GetContainer jsstr
  | GetSummary jsstr

record backend =
  post_containers :: "request list \<Rightarrow> jsstr \<Rightarrow> jsstr + container"
  post_lines :: "request list \<Rightarrow> jsstr \<Rightarrow> jsstr \<Rightarrow> jsnum \<Rightarrow> jsstr + container"
  get_container :: "request list \<Rightarrow> jsstr \<Rightarrow> jsstr + container"
  get_summary :: "request list \<Rightarrow> jsstr \<Rightarrow> jsstr + (jsstr \<times> jsnum) list"

text \<open>
  What a run of \<open>processBuffer\<close> changes: the state that the setters have scheduled
  for the next render (\<open>ui\<close>), the requests sent so far, and \<open>bufferRef.current\<close>.

  The functions \<open>handleSegment\<close>, \<open>createContainer\<close> and \<open>addLine\<close> are closures
  of one render of \<open>App\<close>: where they read \<open>activeItem\<close>, \<open>container\<close> or
  \<open>containerLabel\<close> they read the constants of that render, which a setter does not
  change. These reads go to the argument \<open>r\<close>, the state of the render; the setters
  write to \<open>ui\<close>.
\<close>

record world =
  ui :: app_state
  sent :: "request list"
  buffer :: jsstr

definition set_ui :: "(app_state \<Rightarrow> app_state) \<Rightarrow> world \<Rightarrow> world" where
  "set_ui f w = w\<lparr>ui := f (ui w)\<rparr>"

definition send :: "request \<Rightarrow> world \<Rightarrow> world" where
  "send q w = w\<lparr>sent := sent w @ [q]\<rparr>"

text \<open>\<open>createContainer(label)\<close>; it catches every error itself.\<close>

definition createContainer :: "backend \<Rightarrow> app_state \<Rightarrow> jsstr option \<Rightarrow> world \<Rightarrow> world" where
  "createContainer b r label w =
     (let lbl = trim (case label of Some l \<Rightarrow> l | None \<Rightarrow> containerLabel r) in
      if lbl = [] then w
      else (let w1 = set_ui (\<lambda>u. u\<lparr>loading := True\<rparr>) w;
                w2 = send (PostContainers lbl) w1;
                w3 = (case post_containers b (sent w1) lbl of
                        Inr c \<Rightarrow>
                          set_ui (\<lambda>u. u\<lparr>container := Some c, activeItem := [], exprDraft := [],
                                          refInput := [], qtyInput := Fin 1, summary := [],
                                          status := ContainerCreated (clabel c)\<rparr>) w2
                      | Inl e \<Rightarrow> set_ui (\<lambda>u. u\<lparr>status := ContainerCreationError e\<rparr>) w2)
            in set_ui (\<lambda>u. u\<lparr>loading := False\<rparr>) w3))"

text \<open>
  \<open>addLine(itemLabel, quantity)\<close>, with \<open>refreshContainer\<close> and \<open>refreshSummary\<close>
  written out; the second component is the error thrown, if any.
\<close>

definition addLine :: "backend \<Rightarrow> app_state \<Rightarrow> jsstr \<Rightarrow> jsnum \<Rightarrow> world \<Rightarrow> world \<times> jsstr option" where
  "addLine b r item qty w =
     (case container r of
        None \<Rightarrow> (w, None)
      | Some c \<Rightarrow>
          (let w1 = send (PostLines (cid c) item qty) w in
           case post_lines b (sent w) (cid c) item qty of
             Inl e \<Rightarrow> (w1, Some e)
           | Inr _ \<Rightarrow>
               (let w2 = send (GetContainer (cid c)) w1 in
                case get_container b (sent w1) (cid c) of
                  Inl e \<Rightarrow> (w2, Some e)
                | Inr c' \<Rightarrow>
                    (let w3 = set_ui (\<lambda>u. u\<lparr>container := Some c'\<rparr>) w2;
                         w4 = send (GetSummary (cid c)) w3 in
                     case get_summary b (sent w3) (cid c) of
                       Inl e \<Rightarrow> (w4, Some e)
                     | Inr sm \<Rightarrow> (set_ui (\<lambda>u. u\<lparr>summary := sm\<rparr>) w4, None)))))"

text \<open>\<open>s.replace(re, f)\<close> without the \<open>g\<close> flag: the first match only.\<close>

definition replace_first :: "rx \<Rightarrow> (jsstr \<Rightarrow> mstate \<Rightarrow> jsstr) \<Rightarrow> jsstr \<Rightarrow> jsstr" where
  "replace_first r f s =
     (case rx_exec r s 0 of
        None \<Rightarrow> s
      | Some (p, m) \<Rightarrow> take p s @ f s m @ drop (pos m) s)"

text \<open>\<^verbatim>\<open>/^(\s*(contenant|container|carton|bac)\s*)/i\<close>\<close>

definition container_words :: "jsstr list" where
  "container_words = [js ''contenant'', js ''container'', js ''carton'', js ''bac'']"

definition re_container_prefix :: rx where
  "re_container_prefix =
     rx_seqs [rx_bol,
              rx_cap 1 (rx_seqs [rx_greedy 0 is_space,
                                 rx_cap 2 (rx_alts (map rx_lit_i container_words)),
                                 rx_greedy 0 is_space])]"

text \<open>\<^verbatim>\<open>/^(\s*(r\u00E9f\u00E9rence|reference|ref|article)\s*)/i\<close>\<close>

definition reference_words :: "jsstr list" where
  "reference_words =
     [js ''r'' @ [233] @ js ''f'' @ [233] @ js ''rence'', js ''reference'', js ''ref'', js ''article'']"

definition re_reference_prefix :: rx where
  "re_reference_prefix =
     rx_seqs [rx_bol,
              rx_cap 1 (rx_seqs [rx_greedy 0 is_space,
                                 rx_cap 2 (rx_alts (map rx_lit_i reference_words)),
                                 rx_greedy 0 is_space])]"

definition is_container_command :: "jsstr \<Rightarrow> bool" where
  "is_container_command low = (\<exists>p \<in> set container_words. startsWith low p)"

definition is_reference_command :: "jsstr \<Rightarrow> bool" where
  "is_reference_command low = (\<exists>p \<in> set reference_words. startsWith low p)"

text \<open>\<open>handleSegment(raw)\<close>; the second component is the error thrown, if any.\<close>

definition handleSegment :: "backend \<Rightarrow> app_state \<Rightarrow> jsstr \<Rightarrow> world \<Rightarrow> world \<times> jsstr option" where
  "handleSegment b r raw w =
     (let seg = trim raw in
      if seg = [] then (w, None)
      else (let low = trim (toLowerCase seg) in
        if is_container_command low then
          (let stripped = trim (replace_first re_container_prefix (const_rep []) seg);
               label = (if stripped \<noteq> [] then stripped else containerLabel r)
           in (createContainer b r (Some label) (set_ui (\<lambda>u. u\<lparr>containerLabel := label\<rparr>) w), None))
        else if is_reference_command low then
          (let label = trim (replace_first re_reference_prefix (const_rep []) seg) in
           if label = [] then (set_ui (\<lambda>u. u\<lparr>status := EmptyReference\<rparr>) w, None)
           else (set_ui (\<lambda>u. u\<lparr>activeItem := label, refInput := label, exprDraft := [],
                                 qtyInput := Fin 1, status := ActiveReference label\<rparr>) w, None))
        else if trim (activeItem r) = [] then
          (set_ui (\<lambda>u. u\<lparr>status := NoActiveReference seg\<rparr>) w, None)
        else (let expr = normalizeMathSpeech seg;
                  w1 = set_ui (\<lambda>u. u\<lparr>exprDraft := expr\<rparr>) w;
                  res = evalExprSafe expr
              in case error res of
                   Some e \<Rightarrow> (set_ui (\<lambda>u. u\<lparr>status := EvalError e seg\<rparr>) w1, None)
                 | None \<Rightarrow>
                     if le0 (value res) then
                       (set_ui (\<lambda>u. u\<lparr>status := NothingAdded (value res)\<rparr>) w1, None)
                     else (let w2 = set_ui (\<lambda>u. u\<lparr>qtyInput := value res,
                                                   status := Added (value res) (activeItem r)\<rparr>) w1
                           in case addLine b r (activeItem r) (value res) w2 of
                                (w3, Some e) \<Rightarrow> (w3, Some e)
                              | (w3, None) \<Rightarrow> (set_ui (\<lambda>u. u\<lparr>exprDraft := []\<rparr>) w3, None)))))"

text \<open>\<^verbatim>\<open>/\b(ok|okay|okey|d'accord|dac)\b/i\<close>\<close>

definition ok_words :: "jsstr list" where
  "ok_words = [js ''ok'', js ''okay'', js ''okey'', js ''d'' @ [39] @ js ''accord'', js ''dac'']"

definition okRe :: rx where
  "okRe = rx_seqs [rx_wordb, rx_cap 1 (rx_alts (map rx_lit_i ok_words)), rx_wordb]"


text \<open>
  The loop of \<open>processBuffer\<close> over the local variable \<open>buf\<close>: an error that
  \<open>handleSegment\<close> throws becomes a status message, and the loop goes on.
\<close>

function drain :: "backend \<Rightarrow> app_state \<Rightarrow> jsstr \<Rightarrow> world \<Rightarrow> world \<times> jsstr" where
  "drain b r buf w =
     (case rx_exec okRe buf 0 of
        None \<Rightarrow> (w, buf)
      | Some (p, m) \<Rightarrow>
          (let seg = trim (take p buf);
               buf' = trim (drop (pos m) buf);
               w' = (case handleSegment b r seg w of
                       (w1, None) \<Rightarrow> w1
                     | (w1, Some e) \<Rightarrow> set_ui (\<lambda>u. u\<lparr>status := SegmentError e\<rparr>) w1)
           in drain b r buf' w'))"
  by pat_completeness auto
termination
proof -
  have mem: "first_match q s ps = Some (p, m) \<Longrightarrow> match_at q s p = Some m"
    for q s ps p m
    by (induction ps) (auto split: option.splits)
  have lit: "m \<in> set (rx_lit_i v s st) \<Longrightarrow> pos m = pos st + length v" for v s st m
  proof (induction v arbitrary: st)
    case Nil
    then show ?case by (simp add: rx_lit_i_def rx_seqs_def rx_eps_def)
  next
    case (Cons c v)
    from Cons.prems obtain st' where a: "st' \<in> set (rx_chr_i c s st)"
      and b: "m \<in> set (rx_lit_i v s st')"
      by (auto simp: rx_lit_i_def rx_seqs_def rx_seq_def)
    from a have "pos st' = Suc (pos st)"
      by (auto simp: rx_chr_i_def rx_cls_def split: if_splits)
    with Cons.IH [OF b] show ?case by simp
  qed
  have alts: "m \<in> set (rx_alts rs s st) \<Longrightarrow> \<exists>q \<in> set rs. m \<in> set (q s st)" for rs s st m
    by (induction rs) (auto simp: rx_alts_def rx_alt_def rx_fail_def)
  have adv: "m \<in> set (okRe s st) \<Longrightarrow> 0 < pos m" for s st m
  proof -
    assume "m \<in> set (okRe s st)"
    then obtain m' where "m' \<in> set (rx_alts (map rx_lit_i ok_words) s st)" and pm: "pos m = pos m'"
      by (auto simp: okRe_def rx_seqs_def rx_seq_def rx_wordb_def rx_cap_def rx_eps_def
            split: if_splits)
    from alts [OF this(1)] obtain v where "v \<in> set ok_words" and "m' \<in> set (rx_lit_i v s st)"
      by auto
    with lit [of m' v s st] pm show ?thesis by (auto simp: ok_words_def js_def)
  qed
  have tr: "length (trim s) \<le> length s" for s
  proof -
    have "length (trim s) \<le> length (trimStart s)"
      unfolding trim_def trimEnd_def using length_dropWhile_le [of is_space "rev (trimStart s)"]
      by simp
    also have "\<dots> \<le> length s"
      unfolding trimStart_def by (rule length_dropWhile_le)
    finally show ?thesis .
  qed
  have less: "rx_exec okRe buf 0 = Some (p, m) \<Longrightarrow> length (trim (drop (pos m) buf)) < length buf"
    for buf p m
  proof -
    assume ex: "rx_exec okRe buf 0 = Some (p, m)"
    then have ma: "match_at okRe buf p = Some m" unfolding rx_exec_def by (rule mem)
    then have inset: "m \<in> set (okRe buf \<lparr>pos = p, caps = []\<rparr>)"
      by (auto simp: match_at_def split: list.splits)
    have "buf \<noteq> []"
    proof
      assume "buf = []"
      with inset show False
        by (simp add: okRe_def rx_seqs_def rx_seq_def rx_wordb_def boundary_def word_at_def)
    qed
    moreover have "0 < pos m" using inset by (rule adv)
    ultimately have "length (drop (pos m) buf) < length buf" by simp
    with tr [of "drop (pos m) buf"] show ?thesis by simp
  qed
  show ?thesis
    by (relation "measure (\<lambda>(b, r, buf, w). length buf)") (auto dest!: less)
qed

declare drain.simps [simp del]

definition processBuffer :: "backend \<Rightarrow> app_state \<Rightarrow> world \<Rightarrow> world" where
  "processBuffer b r w = (case drain b r (buffer w) w of (w', buf) \<Rightarrow> w'\<lparr>buffer := buf\<rparr>)"

text \<open>
  The effect on \<open>finalTranscript\<close>, for a new part of the transcript: the part is
  appended to the buffer and the buffer is processed by the closures of the current
  render, whose state is \<open>ui w\<close>.
\<close>

definition ingest :: "backend \<Rightarrow> jsstr \<Rightarrow> world \<Rightarrow> world" where
  "ingest b newPart w =
     processBuffer b (ui w) (w\<lparr>buffer := trim (buffer w @ [32] @ newPart)\<rparr>)"

text \<open>The state of a session that has just started: the initial values of \<open>useState\<close>.\<close>

definition initial_state :: app_state where
  "initial_state =
     \<lparr>containerLabel = js ''Contenant 001'', container = None, activeItem = [], exprDraft = [],
      refInput = [], qtyInput = Fin 1, summary = [], loading = False, status = NoStatus\<rparr>"

definition initial_world :: world where
  "initial_world = \<lparr>ui = initial_state, sent = [], buffer = []\<rparr>"


text \<open>
  Two collaborators for the examples: one that accepts every request (a created
  container has the identifier "c1" and no lines), and one that refuses every request.
\<close>

definition empty_container :: "jsstr \<Rightarrow> jsstr \<Rightarrow> container" where
  "empty_container i l = \<lparr>cid = i, clabel = l, clines = []\<rparr>"

definition accepting_backend :: backend where
  "accepting_backend =
     \<lparr>post_containers = (\<lambda>h l. Inr (empty_container (js ''c1'') l)),
      post_lines = (\<lambda>h i l q. Inr (empty_container i [])),
      get_container = (\<lambda>h i. Inr (empty_container i [])),
      get_summary = (\<lambda>h i. Inr [])\<rparr>"

definition refusing_backend :: backend where
  "refusing_backend =
     \<lparr>post_containers = (\<lambda>h l. Inl (js ''HTTP 500'')),
      post_lines = (\<lambda>h i l q. Inl (js ''HTTP 500'')),
      get_container = (\<lambda>h i. Inl (js ''HTTP 500'')),
      get_summary = (\<lambda>h i. Inl (js ''HTTP 500''))\<rparr>"

text \<open>A session in which a container has been created and nothing else has happened.\<close>

definition open_world :: world where
  "open_world =
     initial_world\<lparr>ui := initial_state\<lparr>container := Some (empty_container (js ''c1'') (js ''Contenant 001''))\<rparr>\<rparr>"


section \<open>The aggregator (backend, index.ts and the store module)\<close>

text \<open>
  A \<open>Map\<close> keeps its keys in the order of their first insertion; \<open>set\<close> on a key that
  is present replaces its value in place.
\<close>

fun map_set :: "('k \<times> 'v) list \<Rightarrow> 'k \<Rightarrow> 'v \<Rightarrow> ('k \<times> 'v) list" where
  "map_set [] k v = [(k, v)]"
| "map_set ((k', v') # m) k v = (if k' = k then (k, v) # m else (k', v') # map_set m k v)"

text \<open>\<open>(totals.get(k) ?? 0)\<close>\<close>

definition get_or_zero :: "(jsstr \<times> jsnum) list \<Rightarrow> jsstr \<Rightarrow> jsnum" where
  "get_or_zero m k = (case map_of m k of None \<Rightarrow> Fin 0 | Some t \<Rightarrow> t)"

text \<open>The loop over the lines; a line is its item label and its quantity.\<close>

definition add_line_total :: "(jsstr \<times> jsnum) list \<Rightarrow> jsstr \<times> jsnum \<Rightarrow> (jsstr \<times> jsnum) list" where
  "add_line_total m l = map_set m (fst l) (jadd (get_or_zero m (fst l)) (snd l))"

definition totals :: "(jsstr \<times> jsnum) list \<Rightarrow> (jsstr \<times> jsnum) list" where
  "totals ls = foldl add_line_total [] ls"

text \<open>
  \<open>Array.prototype.sort\<close> with a comparison function is stable; with a consistent
  comparison it gives the order that inserting the elements one by one gives, each
  before the first element that it does not follow.
\<close>

fun insort_by :: "('a \<Rightarrow> 'a \<Rightarrow> int) \<Rightarrow> 'a \<Rightarrow> 'a list \<Rightarrow> 'a list" where
  "insort_by c x [] = [x]"
| "insort_by c x (y # ys) = (if c x y \<le> 0 then x # y # ys else y # insort_by c x ys)"

definition sort_by :: "('a \<Rightarrow> 'a \<Rightarrow> int) \<Rightarrow> 'a list \<Rightarrow> 'a list" where
  "sort_by c xs = foldr (insort_by c) xs []"

record summary_line =
  sItemLabel :: jsstr
  totalQuantity :: jsnum

text \<open>
  The summary of the lines of a container. \<open>localeCompare\<close> belongs to the platform
  (its order depends on the collation data of the engine) and is the parameter \<open>cmp\<close>.
\<close>

definition summarize :: "(jsstr \<Rightarrow> jsstr \<Rightarrow> int) \<Rightarrow> (jsstr \<times> jsnum) list \<Rightarrow> summary_line list" where
  "summarize cmp ls =
     sort_by (\<lambda>a b. cmp (sItemLabel a) (sItemLabel b))
       (map (\<lambda>(k, t). \<lparr>sItemLabel = k, totalQuantity = t\<rparr>) (totals ls))"

text \<open>\<open>getSummary(containerId)\<close> over the store of containers.\<close>

definition getSummary ::
  "(jsstr \<Rightarrow> jsstr \<Rightarrow> int) \<Rightarrow> (jsstr \<rightharpoonup> container) \<Rightarrow> jsstr \<Rightarrow> summary_line list option" where
  "getSummary cmp containers containerId =
     (case containers containerId of
        None \<Rightarrow> None
      | Some c \<Rightarrow> Some (summarize cmp (map snd (clines c))))"

text \<open>
  A comparison by code units, the first difference deciding. It stands for
  \<open>localeCompare\<close> in the examples, where a single label occurs or the labels are
  ordered alike by every collation.
\<close>

fun unit_compare :: "jsstr \<Rightarrow> jsstr \<Rightarrow> int" where
  "unit_compare [] [] = 0"
| "unit_compare [] (y # ys) = - 1"
| "unit_compare (x # xs) [] = 1"
| "unit_compare (x # xs) (y # ys) = (if x < y then - 1 else if y < x then 1 else unit_compare xs ys)"


section \<open>Evaluation\<close>

text \<open>The definitions that evaluate a regular expression on a given string.\<close>

lemmas class_defs = is_digit_def is_upper_def is_lower_def is_word_def is_lineterm_def is_dot_def
  is_space_def canon_def

lemmas rx_defs = rx_eps_def rx_fail_def rx_cls_def rx_seq_def rx_seqs_def rx_alt_def rx_alts_def
  rx_opt_def run_length_def rx_greedy_def rx_lazy_def rx_bol_def rx_eol_def word_at_def
  boundary_def rx_wordb_def rx_cap_def rx_look_def rx_chr_def rx_chr_i_def rx_lit_def
  rx_lit_i_def match_at_def rx_exec_def rx_test_def group_def js_def

lemmas str_defs = trimStart_def trimEnd_def trim_def lower_unit_def toLowerCase_def
  startsWith_def

subsection \<open>Rounding is exact on the integers up to \<open>2\<^sup>5\<^sup>3\<close>\<close>

lemma log2floor_bounds: "0 < n \<Longrightarrow> 2 ^ log2floor n \<le> n \<and> n < 2 ^ Suc (log2floor n)"
proof (induction n rule: log2floor.induct)
  case (1 n)
  show ?case
  proof (cases "n < 2")
    case True
    with "1.prems" have "n = 1" by simp
    then show ?thesis by (simp add: log2floor.simps)
  next
    case False
    then have pos: "0 < n div 2" by simp
    define a :: nat where "a = 2 ^ log2floor (n div 2)"
    have ih: "a \<le> n div 2 \<and> n div 2 < 2 * a"
      using "1.IH" [OF False pos] by (simp add: a_def)
    have eq: "log2floor n = Suc (log2floor (n div 2))"
      using False by (subst log2floor.simps) simp
    have "2 * a \<le> n \<and> n < 2 * (2 * a)" using ih by arith
    then show ?thesis unfolding eq by (simp add: a_def)
  qed
qed

lemma round_half_even_int: "round_half_even (of_int k) = k"
  by (simp add: round_half_even_def)

lemma round64_of_nat:
  assumes "n \<le> 2 ^ 53"
  shows "round64 (of_nat n) = Fin (of_nat n)"
proof (cases "n = 0")
  case True
  then show ?thesis by (simp add: round64_def)
next
  case False
  then have npos: "0 < n" by simp
  define e where "e = log2floor n"
  have lo: "2 ^ e \<le> n" and hi: "n < 2 ^ Suc e"
    using log2floor_bounds [OF npos] by (simp_all add: e_def)
  have e53: "e \<le> 53"
  proof (rule ccontr)
    assume "\<not> e \<le> 53"
    then have "54 \<le> e" by simp
    then have "(2::nat) ^ 54 \<le> 2 ^ e" by (rule power_increasing) simp
    with lo assms show False by simp
  qed
  have a1: "(1::rat) \<le> of_nat n" using npos by simp
  have il: "ilog2 (of_nat n) = int e"
    using a1 by (simp add: ilog2_def e_def)
  have mx: "max (int e) (- 1022) = int e" by simp
  obtain k :: int where k: "(of_nat n :: rat) / pow2 (int e - 52) = of_int k"
  proof (cases "e \<le> 52")
    case True
    then have "pow2 (int e - 52) = 1 / 2 ^ (52 - e)"
      by (auto simp: pow2_def nat_diff_distrib' intro: arg_cong)
    then have "(of_nat n :: rat) / pow2 (int e - 52) = of_int (int n * 2 ^ (52 - e))"
      by simp
    then show ?thesis using that by blast
  next
    case False
    with e53 have e: "e = 53" by simp
    with lo assms have n: "n = 2 ^ 53" by simp
    have "(of_nat n :: rat) / pow2 (int e - 52) = of_int (2 ^ 52)"
      unfolding e n by (simp add: pow2_def)
    then show ?thesis using that by blast
  qed
  have small: "\<not> pow2 1024 \<le> (of_nat n :: rat)"
  proof -
    have "(of_nat n :: rat) \<le> of_nat (2 ^ 53)" using assms by (simp only: of_nat_le_iff)
    also have "\<dots> < pow2 1024" by (simp add: pow2_def)
    finally show ?thesis by simp
  qed
  have pz: "pow2 (int e - 52) \<noteq> 0" by (simp add: pow2_def)
  have mulk: "(of_int k :: rat) * pow2 (int e - 52) = of_nat n"
    using k pz by (simp add: field_simps)
  show ?thesis
    using False npos small
    by (simp add: round64_def Let_def il mx k round_half_even_int mulk)
qed

lemma round64_numeral:
  "numeral k \<le> (2 ^ 53 :: nat) \<Longrightarrow> round64 (numeral k) = Fin (numeral k)"
  using round64_of_nat [of "numeral k"] by simp

lemma round64_0: "round64 0 = Fin 0"
  by (simp add: round64_def)

lemma round64_1: "round64 1 = Fin 1"
  using round64_of_nat [of 1] by simp

lemma round64_neg_numeral:
  "numeral k \<le> (2 ^ 53 :: nat) \<Longrightarrow> round64 (- numeral k) = Fin (- numeral k)"
proof -
  assume "numeral k \<le> (2 ^ 53 :: nat)"
  then have pos: "round64 (numeral k) = Fin (numeral k)" by (rule round64_numeral)
  have nz: "(numeral k :: rat) \<noteq> 0" by simp
  from pos show ?thesis
    by (simp add: round64_def Let_def split: if_splits)
qed

lemmas num_eval = round64_numeral round64_neg_numeral round64_0 round64_1 digit_val_def
  decimal_def number_of_digits_def parseInt_def jsub_def


section \<open>The segment extractor on the segments of the specification\<close>

lemmas extract_defs = FR_NUM_def is_letterish_def re_lead_word_def parseLeadingNumberWord_def
  re_leading_qty_def re_trailing_mult_def re_trailing_qty_def accept_def strategy1_def
  strategy2_def strategy3_def strategy4_def strategy5_def split_runs.simps all_digits_def
  is_mm_def fallback.simps extractQuantityAndLabel_def Let_def

text \<open>
  Claim C1 says that the segment "M6x20", a dimension code with no other digits, yields no
  line. The code answers otherwise: strategy 3 reads the \<open>x\<close> inside the code as the
  multiplication sign, so that the segment yields the quantity 20 for the item "M6".
\<close>

theorem C1_dimension_code_yields_line:
  "extractQuantityAndLabel (js ''M6x20'') = Some \<lparr>quantity = Fin 20, itemLabel = js ''M6''\<rparr>
   \<and> strategy1 (js ''M6x20'') = None \<and> strategy2 (js ''M6x20'') = None
   \<and> strategy3 (js ''M6x20'') = Some \<lparr>quantity = Fin 20, itemLabel = js ''M6''\<rparr>"
  by (simp add: extract_defs rx_defs class_defs str_defs num_eval)

text \<open>
  Claim C5: the strategies are tried in a fixed order and the first that answers decides.
  Each of "10 vis M6x20", "dix vis M6x20", "vis M6x20 x 10" and "vis M6x20 10" gives
  the quantity 10 for the item "vis M6x20"; the answer is that of strategy 1, 2, 3 and 4
  respectively, every earlier strategy having given none.
\<close>

theorem C5_strategy_order:
  "(\<forall>s. extractQuantityAndLabel s =
          (if trim s = [] then None
           else first_some (\<lambda>f. f (trim s)) [strategy1, strategy2, strategy3, strategy4, strategy5]))
   \<and> (extractQuantityAndLabel (js ''10 vis M6x20'') = Some \<lparr>quantity = Fin 10, itemLabel = js ''vis M6x20''\<rparr>
   \<and> strategy1 (js ''10 vis M6x20'') = Some \<lparr>quantity = Fin 10, itemLabel = js ''vis M6x20''\<rparr>
   \<and> extractQuantityAndLabel (js ''dix vis M6x20'') = Some \<lparr>quantity = Fin 10, itemLabel = js ''vis M6x20''\<rparr>
   \<and> strategy1 (js ''dix vis M6x20'') = None
   \<and> strategy2 (js ''dix vis M6x20'') = Some \<lparr>quantity = Fin 10, itemLabel = js ''vis M6x20''\<rparr>
   \<and> extractQuantityAndLabel (js ''vis M6x20 x 10'') = Some \<lparr>quantity = Fin 10, itemLabel = js ''vis M6x20''\<rparr>
   \<and> strategy1 (js ''vis M6x20 x 10'') = None
   \<and> strategy2 (js ''vis M6x20 x 10'') = None
   \<and> strategy3 (js ''vis M6x20 x 10'') = Some \<lparr>quantity = Fin 10, itemLabel = js ''vis M6x20''\<rparr>
   \<and> extractQuantityAndLabel (js ''vis M6x20 10'') = Some \<lparr>quantity = Fin 10, itemLabel = js ''vis M6x20''\<rparr>
   \<and> strategy1 (js ''vis M6x20 10'') = None
   \<and> strategy2 (js ''vis M6x20 10'') = None
   \<and> strategy3 (js ''vis M6x20 10'') = None
   \<and> strategy4 (js ''vis M6x20 10'') = Some \<lparr>quantity = Fin 10, itemLabel = js ''vis M6x20''\<rparr>)"
proof (rule conjI)
  show "\<forall>s. extractQuantityAndLabel s =
          (if trim s = [] then None
           else first_some (\<lambda>f. f (trim s)) [strategy1, strategy2, strategy3, strategy4, strategy5])"
    by (simp add: extractQuantityAndLabel_def Let_def)
qed (simp add: extract_defs rx_defs class_defs str_defs num_eval)

text \<open>
  Claim C6: in the segment "vis 6 mm" the only digit token is followed by a unit of
  length, so the fallback does not take it, and no other strategy answers: the segment
  yields no line.
\<close>

theorem C6_unit_exclusion:
  "extractQuantityAndLabel (js ''vis 6 mm'') = None
   \<and> strategy1 (js ''vis 6 mm'') = None \<and> strategy2 (js ''vis 6 mm'') = None
   \<and> strategy3 (js ''vis 6 mm'') = None \<and> strategy4 (js ''vis 6 mm'') = None
   \<and> strategy5 (js ''vis 6 mm'') = None
   \<and> strategy5 (js ''vis 6 cm'') = Some \<lparr>quantity = Fin 6, itemLabel = js ''vis cm''\<rparr>"
  by (simp add: extract_defs rx_defs class_defs str_defs num_eval)


section \<open>The expression evaluator\<close>

lemmas descend_numeral = descend.simps(2) [of "pred_numeral k" for k, folded numeral_eq_Suc]

lemma and_then_simps:
  "and_then None k = None"
  "and_then (Some (Inl e)) k = Some (Inl e)"
  "and_then (Some (Inr (v, j))) k = k v j"
  by (simp_all add: and_then_def)

text \<open>The continuation is left alone until the call before it has been evaluated.\<close>

lemma and_then_weak_cong: "r = r' \<Longrightarrow> and_then r k = and_then r' k"
  by simp

lemmas eval_defs = peek_def skip_def number_def and_then_simps depth_bound_def evalExprSafe_def
  descend_numeral Let_def run_length_def is_digit_def is_space_def js_def

subsection \<open>The depth bound is never reached\<close>

lemma run_length_le: "run_length P s i \<le> length s - i"
  unfolding run_length_def using length_takeWhile_le [of P "drop i s"] by simp

lemma skip_ge: "i \<le> skip s i"
  by (simp add: skip_def)

lemma skip_le: "i \<le> length s \<Longrightarrow> skip s i \<le> length s"
  using run_length_le [of "\<lambda>c. c = 32" s i] by (simp add: skip_def)

lemma peek_SomeD: "peek s i = Some c \<Longrightarrow> i < length s"
  by (simp add: peek_def split: if_splits)

lemma number_InrD: "number s i = Inr (v, j) \<Longrightarrow> i < j \<and> j \<le> length s"
proof -
  assume a: "number s i = Inr (v, j)"
  define st where "st = skip s i"
  from a have j: "j = st + run_length is_digit s st" and ne: "run_length is_digit s st \<noteq> 0"
    by (auto simp: number_def Let_def st_def split: if_splits)
  have "i \<le> st" unfolding st_def by (rule skip_ge)
  moreover have "run_length is_digit s st \<le> length s - st" by (rule run_length_le)
  ultimately show ?thesis using j ne by auto
qed

lemma depth_suffices:
  "depth_needed s r i \<le> n \<Longrightarrow> \<exists>res. descend n s r i = Some res \<and> advances s r i res"
proof (induction n arbitrary: r i)
  case 0
  then show ?case by (cases r) simp_all
next
  case (Suc n)
  note IH = Suc.IH
  define i' where "i' = skip s i"
  have ii': "i \<le> i'" unfolding i'_def by (rule skip_ge)
  show ?case
  proof (cases r)
    case Factor
    have need: "3 * (length s - i) \<le> n" using Suc.prems Factor by simp
    have sub: "\<exists>res. descend n s Factor (Suc i') = Some res \<and> advances s Factor (Suc i') res"
      if "i' < length s"
      using that ii' need by (intro IH) simp
    have sube: "\<exists>res. descend n s Expr (Suc i') = Some res \<and> advances s Expr (Suc i') res"
      if "i' < length s"
      using that ii' need by (intro IH) simp
    consider (plus) "peek s i' = Some 43" | (minus) "peek s i' = Some 45"
      | (paren) "peek s i' = Some 40"
      | (num) "peek s i' \<noteq> Some 43" "peek s i' \<noteq> Some 45" "peek s i' \<noteq> Some 40"
      by blast
    then show ?thesis
    proof cases
      case plus
      from sub [OF peek_SomeD [OF plus]] obtain res where
        "descend n s Factor (Suc i') = Some res" "advances s Factor (Suc i') res" by blast
      then show ?thesis using plus ii' Factor
        by (auto simp: Let_def i'_def [symmetric] advances_def split: sum.splits)
    next
      case minus
      from sub [OF peek_SomeD [OF minus]] obtain res where
        "descend n s Factor (Suc i') = Some res" "advances s Factor (Suc i') res" by blast
      then show ?thesis using minus ii' Factor
        by (auto simp: Let_def i'_def [symmetric] advances_def and_then_def split: sum.splits)
    next
      case paren
      from sube [OF peek_SomeD [OF paren]] obtain res where
        res: "descend n s Expr (Suc i') = Some res" "advances s Expr (Suc i') res" by blast
      show ?thesis
      proof (cases res)
        case (Inl e)
        then show ?thesis using res paren Factor
          by (simp add: Let_def i'_def [symmetric] advances_def and_then_def)
      next
        case (Inr vj)
        obtain v j where vj: "vj = (v, j)" by (cases vj)
        from res(2) Inr vj have j: "Suc i' < j" "j \<le> length s" by (simp_all add: advances_def)
        have "skip s j \<le> length s" using j by (intro skip_le)
        moreover have "j \<le> skip s j" by (rule skip_ge)
        ultimately show ?thesis using res(1) Inr vj paren Factor j ii'
          by (auto simp: Let_def i'_def [symmetric] advances_def and_then_def dest: peek_SomeD)
      qed
    next
      case num
      have "advances s Factor i (number s i')"
      proof (cases "number s i'")
        case (Inl e)
        then show ?thesis by (simp add: advances_def)
      next
        case (Inr vj)
        obtain v j where vj: "vj = (v, j)" by (cases vj)
        from number_InrD [of s i' v j] Inr vj ii' show ?thesis by (simp add: advances_def)
      qed
      then show ?thesis using num Factor by (simp add: Let_def i'_def [symmetric])
    qed
  next
    case (TermLoop v)
    have need: "3 * (length s - i) \<le> n" using Suc.prems TermLoop by simp
    show ?thesis
    proof (cases "peek s i' = Some 42 \<or> peek s i' = Some 47")
      case False
      then show ?thesis using TermLoop ii' skip_le [of i s]
        by (simp add: Let_def i'_def [symmetric] advances_def)
    next
      case True
      then have lt: "i' < length s" by (auto dest: peek_SomeD)
      have "\<exists>res. descend n s Factor (Suc i') = Some res \<and> advances s Factor (Suc i') res"
        using lt ii' need by (intro IH) simp
      then obtain res where
        res: "descend n s Factor (Suc i') = Some res" "advances s Factor (Suc i') res" by blast
      show ?thesis
      proof (cases res)
        case (Inl e)
        then show ?thesis using res True TermLoop
          by (simp add: Let_def i'_def [symmetric] advances_def and_then_def)
      next
        case (Inr vj)
        obtain rhs j where vj: "vj = (rhs, j)" by (cases vj)
        from res(2) Inr vj have j: "Suc i' < j" "j \<le> length s" by (simp_all add: advances_def)
        define v' where "v' = (if peek s i' = Some 42 then jmul v rhs else jdiv v rhs)"
        have "\<exists>res. descend n s (TermLoop v') j = Some res \<and> advances s (TermLoop v') j res"
          using j ii' need by (intro IH) simp
        then obtain res2 where
          res2: "descend n s (TermLoop v') j = Some res2" "advances s (TermLoop v') j res2" by blast
        have "advances s (TermLoop v) i res2"
          using res2(2) j ii' by (auto simp: advances_def split: sum.splits)
        then show ?thesis using res(1) res2(1) Inr vj True TermLoop
          by (simp add: Let_def i'_def [symmetric] and_then_def v'_def)
      qed
    qed
  next
    case Term
    have need: "3 * (length s - i) + 1 \<le> n" using Suc.prems Term by simp
    have "\<exists>res. descend n s Factor i = Some res \<and> advances s Factor i res"
      using need by (intro IH) simp
    then obtain res where res: "descend n s Factor i = Some res" "advances s Factor i res" by blast
    show ?thesis
    proof (cases res)
      case (Inl e)
      then show ?thesis using res Term by (simp add: advances_def and_then_def)
    next
      case (Inr vj)
      obtain v j where vj: "vj = (v, j)" by (cases vj)
      from res(2) Inr vj have j: "i < j" "j \<le> length s" by (simp_all add: advances_def)
      have "\<exists>res. descend n s (TermLoop v) j = Some res \<and> advances s (TermLoop v) j res"
        using j need by (intro IH) simp
      then obtain res2 where
        res2: "descend n s (TermLoop v) j = Some res2" "advances s (TermLoop v) j res2" by blast
      have "advances s Term i res2"
        using res2(2) j by (auto simp: advances_def split: sum.splits)
      then show ?thesis using res(1) res2(1) Inr vj Term by (simp add: and_then_def)
    qed
  next
    case (ExprLoop v)
    have need: "3 * (length s - i) + 1 \<le> n" using Suc.prems ExprLoop by simp
    show ?thesis
    proof (cases "peek s i' = Some 43 \<or> peek s i' = Some 45")
      case False
      then show ?thesis using ExprLoop ii' skip_le [of i s]
        by (simp add: Let_def i'_def [symmetric] advances_def)
    next
      case True
      then have lt: "i' < length s" by (auto dest: peek_SomeD)
      have "\<exists>res. descend n s Term (Suc i') = Some res \<and> advances s Term (Suc i') res"
        using lt ii' need by (intro IH) simp
      then obtain res where
        res: "descend n s Term (Suc i') = Some res" "advances s Term (Suc i') res" by blast
      show ?thesis
      proof (cases res)
        case (Inl e)
        then show ?thesis using res True ExprLoop
          by (simp add: Let_def i'_def [symmetric] advances_def and_then_def)
      next
        case (Inr vj)
        obtain rhs j where vj: "vj = (rhs, j)" by (cases vj)
        from res(2) Inr vj have j: "Suc i' < j" "j \<le> length s" by (simp_all add: advances_def)
        define v' where "v' = (if peek s i' = Some 43 then jadd v rhs else jsub v rhs)"
        have "\<exists>res. descend n s (ExprLoop v') j = Some res \<and> advances s (ExprLoop v') j res"
          using j ii' need by (intro IH) simp
        then obtain res2 where
          res2: "descend n s (ExprLoop v') j = Some res2" "advances s (ExprLoop v') j res2" by blast
        have "advances s (ExprLoop v) i res2"
          using res2(2) j ii' by (auto simp: advances_def split: sum.splits)
        then show ?thesis using res(1) res2(1) Inr vj True ExprLoop
          by (simp add: Let_def i'_def [symmetric] and_then_def v'_def)
      qed
    qed
  next
    case Expr
    have need: "3 * (length s - i) + 2 \<le> n" using Suc.prems Expr by simp
    have "\<exists>res. descend n s Term i = Some res \<and> advances s Term i res"
      using need by (intro IH) simp
    then obtain res where res: "descend n s Term i = Some res" "advances s Term i res" by blast
    show ?thesis
    proof (cases res)
      case (Inl e)
      then show ?thesis using res Expr by (simp add: advances_def and_then_def)
    next
      case (Inr vj)
      obtain v j where vj: "vj = (v, j)" by (cases vj)
      from res(2) Inr vj have j: "i < j" "j \<le> length s" by (simp_all add: advances_def)
      have "\<exists>res. descend n s (ExprLoop v) j = Some res \<and> advances s (ExprLoop v) j res"
        using j need by (intro IH) simp
      then obtain res2 where
        res2: "descend n s (ExprLoop v) j = Some res2" "advances s (ExprLoop v) j res2" by blast
      have "advances s Expr i res2"
        using res2(2) j by (auto simp: advances_def split: sum.splits)
      then show ?thesis using res(1) res2(1) Inr vj Expr by (simp add: and_then_def)
    qed
  qed
qed


end
